theory Spec2Isabelle
  imports Main
begin

section \<open>Python values and strings\<close>

text \<open>
  A Python \<open>str\<close> is a \<^typ>\<open>string\<close>; a value that is either a \<open>str\<close> or
  \<open>None\<close> is a \<^typ>\<open>string option\<close>. The uncaught exceptions of the script are
  values of \<open>error\<close>, and a computation that may raise returns \<open>error + 'a\<close>.
\<close>

datatype error = XMLSyntaxError | AttributeError | TypeError | IndexError

text \<open>Interpolation \<open>f"{v}"\<close>: a string is inserted as it is, \<open>None\<close> as the text None.\<close>

definition fstr :: "string option \<Rightarrow> string" where
  "fstr v = (case v of None \<Rightarrow> ''None'' | Some s \<Rightarrow> s)"

text \<open>
  \<open>str.isspace\<close> on the code points below 256: tab to carriage return, the four
  separators 0x1C to 0x1F, space, NEL and the no-break space.
\<close>

definition isspace :: "char \<Rightarrow> bool" where
  "isspace c = ((of_char c :: nat) \<in>
     {0x09, 0x0A, 0x0B, 0x0C, 0x0D, 0x1C, 0x1D, 0x1E, 0x1F, 0x20, 0x85, 0xA0})"

text \<open>\<open>s.strip()\<close> and \<open>s.strip(chars)\<close> remove from both ends.\<close>

definition strip_with :: "(char \<Rightarrow> bool) \<Rightarrow> string \<Rightarrow> string" where
  "strip_with P s = rev (dropWhile P (rev (dropWhile P s)))"

definition strip :: "string \<Rightarrow> string" where
  "strip s = strip_with isspace s"

definition strip_chars :: "string \<Rightarrow> string \<Rightarrow> string" where
  "strip_chars chars s = strip_with (\<lambda>c. c \<in> set chars) s"

text \<open>
  \<open>str.upper\<close> on ASCII letters. The script applies it only to an \<open>addrtype\<close> that
  has just been compared equal to ipv4 or ipv6.
\<close>

definition upper_char :: "char \<Rightarrow> char" where
  "upper_char c =
     (let n = (of_char c :: nat) in if 97 \<le> n \<and> n \<le> 122 then char_of (n - 32) else c)"

definition upper :: "string \<Rightarrow> string" where
  "upper s = map upper_char s"

text \<open>\<open>sep.join(xs)\<close>.\<close>

fun join :: "string \<Rightarrow> string list \<Rightarrow> string" where
  "join sep [] = []"
| "join sep [x] = x"
| "join sep (x # y # ys) = x @ sep @ join sep (y # ys)"

text \<open>\<open>needle in hay\<close> for strings, and \<open>s.endswith(suffix)\<close>.\<close>

fun contains :: "string \<Rightarrow> string \<Rightarrow> bool" where
  "contains needle [] = (needle = [])"
| "contains needle (c # cs) =
     (take (length needle) (c # cs) = needle \<or> contains needle cs)"

definition endswith :: "string \<Rightarrow> string \<Rightarrow> bool" where
  "endswith s suffix = (length suffix \<le> length s \<and> drop (length s - length suffix) s = suffix)"

section \<open>The XML tree\<close>

text \<open>
  An element of the parsed tree: its tag, its attributes and its child elements in
  document order. \<open>get\<close>, \<open>find\<close> and \<open>findall\<close> are the three lookups the script uses;
  a plain tag as path selects among the children, \<open>.//tag\<close> among all descendants.
\<close>

datatype element = Element (tag: string) (attrib: "(string \<times> string) list") (children: "element list")

definition elem_get :: "element \<Rightarrow> string \<Rightarrow> string option" where
  "elem_get e key = map_of (attrib e) key"

definition findall :: "element \<Rightarrow> string \<Rightarrow> element list" where
  "findall e t = filter (\<lambda>c. tag c = t) (children e)"

definition find_elem :: "element \<Rightarrow> string \<Rightarrow> element option" where
  "find_elem e t = (case findall e t of [] \<Rightarrow> None | c # _ \<Rightarrow> Some c)"

fun descendants :: "element \<Rightarrow> element list" where
  "descendants (Element t a cs) = concat (map (\<lambda>c. c # descendants c) cs)"

definition findall_descendants :: "element \<Rightarrow> string \<Rightarrow> element list" where
  "findall_descendants e t = filter (\<lambda>c. tag c = t) (descendants e)"

section \<open>The extractor: \<open>parse_nmap_xml\<close>\<close>

record port_data =
  portid :: "string option"
  protocol :: "string option"
  state :: "string option"
  service :: "string option"
  product :: "string option"
  version :: "string option"

record extraport_data =
  xp_state :: "string option"
  xp_count :: "string option"

record host_data =
  address :: string
  hostnames :: string
  ports :: "port_data list"
  extraports :: "extraport_data list"

text \<open>The address loop, with \<open>host_data['address']\<close> as the accumulator.\<close>

fun address_loop :: "string \<Rightarrow> element list \<Rightarrow> string" where
  "address_loop acc [] = acc"
| "address_loop acc (a # as) =
     (let addr_type = elem_get a ''addrtype''; addr = elem_get a ''addr'' in
      case addr_type of
        None \<Rightarrow> address_loop acc as
      | Some t \<Rightarrow>
          if t = ''ipv4'' \<or> t = ''ipv6''
          then address_loop (acc @ fstr addr @ '' ('' @ upper t @ ''), '') as
          else address_loop acc as)"

definition host_address :: "element \<Rightarrow> string" where
  "host_address host = strip_chars '','' (strip (address_loop [] (findall host ''address'')))"

definition hostname_entry :: "element \<Rightarrow> string" where
  "hostname_entry hn = fstr (elem_get hn ''name'') @ '' ('' @ fstr (elem_get hn ''type'') @ '')''"

definition host_hostnames :: "element \<Rightarrow> string" where
  "host_hostnames host =
     (case find_elem host ''hostnames'' of
        None \<Rightarrow> []
      | Some hostnames_element \<Rightarrow>
          join '', '' (map hostname_entry (findall hostnames_element ''hostname'')))"

text \<open>
  One port dictionary. \<open>port.find('state')\<close> is \<open>None\<close> when there is no state child,
  and \<open>.get\<close> on it raises.
\<close>

definition parse_port :: "element \<Rightarrow> error + port_data" where
  "parse_port port =
     (case find_elem port ''state'' of
        None \<Rightarrow> Inl AttributeError
      | Some st \<Rightarrow> Inr \<lparr>
          portid = elem_get port ''portid'',
          protocol = elem_get port ''protocol'',
          state = elem_get st ''state'',
          service = (case find_elem port ''service'' of Some sv \<Rightarrow> elem_get sv ''name'' | None \<Rightarrow> Some []),
          product = (case find_elem port ''service'' of Some sv \<Rightarrow> elem_get sv ''product'' | None \<Rightarrow> Some []),
          version = (case find_elem port ''service'' of Some sv \<Rightarrow> elem_get sv ''version'' | None \<Rightarrow> Some [])
        \<rparr>)"

fun parse_ports :: "element list \<Rightarrow> error + port_data list" where
  "parse_ports [] = Inr []"
| "parse_ports (p # ps) =
     (case parse_port p of
        Inl e \<Rightarrow> Inl e
      | Inr d \<Rightarrow> (case parse_ports ps of Inl e \<Rightarrow> Inl e | Inr ds \<Rightarrow> Inr (d # ds)))"

definition parse_extraports :: "element \<Rightarrow> extraport_data list" where
  "parse_extraports ports_element =
     (case find_elem ports_element ''extraports'' of
        None \<Rightarrow> []
      | Some xp \<Rightarrow> [\<lparr>xp_state = elem_get xp ''state'', xp_count = elem_get xp ''count''\<rparr>])"

definition parse_host :: "element \<Rightarrow> error + host_data" where
  "parse_host host =
     (case find_elem host ''ports'' of
        None \<Rightarrow> Inr \<lparr>address = host_address host, hostnames = host_hostnames host,
                    ports = [], extraports = []\<rparr>
      | Some ports_element \<Rightarrow>
          (case parse_ports (findall ports_element ''port'') of
             Inl e \<Rightarrow> Inl e
           | Inr ps \<Rightarrow> Inr \<lparr>address = host_address host, hostnames = host_hostnames host,
                          ports = ps, extraports = parse_extraports ports_element\<rparr>))"

fun parse_hosts :: "element list \<Rightarrow> error + host_data list" where
  "parse_hosts [] = Inr []"
| "parse_hosts (h # hs) =
     (case parse_host h of
        Inl e \<Rightarrow> Inl e
      | Inr d \<Rightarrow> (case parse_hosts hs of Inl e \<Rightarrow> Inl e | Inr ds \<Rightarrow> Inr (d # ds)))"

text \<open>
  \<open>parse_nmap_xml\<close>, after \<open>ET.parse\<close>: \<open>None\<close> stands for a file the XML library
  refuses, which raises before any host is read.
\<close>

definition parse_nmap_xml :: "element option \<Rightarrow> error + host_data list" where
  "parse_nmap_xml tree =
     (case tree of
        None \<Rightarrow> Inl XMLSyntaxError
      | Some root \<Rightarrow> parse_hosts (findall_descendants root ''host''))"

section \<open>The document\<close>

text \<open>
  What the script builds through the document library. A run carries its text, as
  \<open>run.text\<close> reads it back, and the font properties the script sets; a paragraph is
  its runs; a cell has its grid span,
  the fills of the shading elements appended to its properties, and its paragraphs; a
  row is its cells, a merged range being one cell; the body of a document is a sequence
  of tables and paragraphs.
\<close>

record run =
  r_text :: string
  r_color :: "string option"
  r_size :: "nat option"
  r_name :: "string option"

type_synonym para = "run list"

record cell =
  c_span :: nat
  c_shd :: "string list"
  c_paragraphs :: "para list"

type_synonym row = "cell list"

record table =
  t_cols :: nat
  t_style :: string
  t_rows :: "row list"

datatype block = Table table | Paragraph para

type_synonym document = "block list"

text \<open>A cell of a new row holds one empty paragraph; \<open>add_row\<close> gives one cell per column.\<close>

definition new_cell :: cell where
  "new_cell = \<lparr>c_span = 1, c_shd = [], c_paragraphs = [[]]\<rparr>"

definition add_row :: "nat \<Rightarrow> row" where
  "add_row cols = replicate cols new_cell"

text \<open>
  \<open>row.cells[0].merge(row.cells[5])\<close> on a new row: the first cell swallows the others
  and spans their columns.
\<close>

definition merge_row :: "row \<Rightarrow> row" where
  "merge_row r = (case r of [] \<Rightarrow> [] | c # cs \<Rightarrow> [c\<lparr>c_span := sum_list (map c_span (c # cs))\<rparr>])"

text \<open>
  \<open>cell.text = v\<close> replaces the content of the cell by one paragraph of one run. The
  library iterates over the characters of \<open>v\<close>, so \<open>None\<close> raises. It stores a line
  feed and a carriage return as a line break, which reads back as a line feed, a tab as
  a tab, and the other characters as text: read back, the run has the assigned string
  with every carriage return replaced by a line feed. (The strings of a parsed tree hold
  no other control character than these three.)
\<close>

definition stored_text :: "string \<Rightarrow> string" where
  "stored_text s = map (\<lambda>c. if c = CHR 0x0D then CHR 0x0A else c) s"

definition new_run :: "string \<Rightarrow> run" where
  "new_run s = \<lparr>r_text = stored_text s, r_color = None, r_size = None, r_name = None\<rparr>"

definition with_text :: "string \<Rightarrow> cell \<Rightarrow> cell" where
  "with_text s c = c\<lparr>c_paragraphs := [[new_run s]]\<rparr>"

definition set_text :: "string option \<Rightarrow> cell \<Rightarrow> error + cell" where
  "set_text v c = (case v of None \<Rightarrow> Inl TypeError | Some s \<Rightarrow> Inr (with_text s c))"

text \<open>\<open>cell.text\<close> read back: the paragraphs joined by a newline, each the text of its runs.\<close>

definition cell_text :: "cell \<Rightarrow> string" where
  "cell_text c = join [CHR 0x0A] (map (\<lambda>p. concat (map r_text p)) (c_paragraphs c))"

definition run_colors :: "cell \<Rightarrow> string option list" where
  "run_colors c = map r_color (concat (c_paragraphs c))"

section \<open>The renderer: \<open>set_cell_background_color\<close> and \<open>create_final_host_table\<close>\<close>

text \<open>
  The shading element is appended to the cell; the text colour is set on every run only
  when \<open>text_color\<close> is truthy, that is neither \<open>None\<close> nor the empty string.
\<close>

definition set_cell_background_color :: "cell \<Rightarrow> string \<Rightarrow> string option \<Rightarrow> cell" where
  "set_cell_background_color c color text_color =
     (let c' = c\<lparr>c_shd := c_shd c @ [color]\<rparr> in
      case text_color of
        None \<Rightarrow> c'
      | Some tc \<Rightarrow>
          if tc = [] then c'
          else c'\<lparr>c_paragraphs := map (map (\<lambda>r. r\<lparr>r_color := Some tc\<rparr>)) (c_paragraphs c')\<rparr>)"

text \<open>
  \<open>row.cells[i]\<close> is the cell at index \<open>i\<close> of the row; the script indexes a merged row
  at 0 only, where the merged cell is. \<open>row.cells[i].text = v\<close> on a row:
\<close>

definition set_text_at :: "nat \<Rightarrow> string option \<Rightarrow> row \<Rightarrow> error + row" where
  "set_text_at i v r =
     (if i < length r
      then (case set_text v (r ! i) of Inl e \<Rightarrow> Inl e | Inr c \<Rightarrow> Inr (r[i := c]))
      else Inl IndexError)"

definition and_then :: "error + 'a \<Rightarrow> ('a \<Rightarrow> error + 'b) \<Rightarrow> error + 'b" where
  "and_then m f = (case m of Inl e \<Rightarrow> Inl e | Inr x \<Rightarrow> f x)"

text \<open>The Address and Hostnames bands: a merged row, its text, then the colours.\<close>

definition band_row :: "string \<Rightarrow> row" where
  "band_row label =
     (let r = merge_row (add_row 6);
          r = r[0 := with_text label (r ! 0)]
      in r[0 := set_cell_background_color (r ! 0) ''E94347'' (Some ''FFFFFF'')])"

definition value_row :: "string \<Rightarrow> row" where
  "value_row v = (let r = merge_row (add_row 6) in r[0 := with_text v (r ! 0)])"

definition headers :: "string list" where
  "headers = [''Port'', ''Protocol'', ''State'', ''Service'', ''Product'', ''Version'']"

definition titles_row :: row where
  "titles_row =
     foldl (\<lambda>r (i, title).
              (let r = r[i := with_text title (r ! i)]
               in r[i := set_cell_background_color (r ! i) ''E94347'' (Some ''FFFFFF'')]))
       (add_row 6) (enumerate 0 headers)"

text \<open>
  One port row: four texts taken as they are, product and version through their
  \<open>is not None\<close> checks, then the fill on each cell of the row.
\<close>

definition port_row :: "port_data \<Rightarrow> error + row" where
  "port_row port =
     and_then (set_text_at 0 (portid port) (add_row 6)) (\<lambda>r.
     and_then (set_text_at 1 (protocol port) r) (\<lambda>r.
     and_then (set_text_at 2 (state port) r) (\<lambda>r.
     and_then (set_text_at 3 (service port) r) (\<lambda>r.
     and_then (set_text_at 4 (case product port of Some s \<Rightarrow> Some s | None \<Rightarrow> Some []) r) (\<lambda>r.
     and_then (set_text_at 5 (case version port of Some s \<Rightarrow> Some s | None \<Rightarrow> Some []) r) (\<lambda>r.
       (let color = (if state port = Some ''open'' then ''EAF1DD'' else ''F2DBDB'')
        in Inr (map (\<lambda>c. set_cell_background_color c color None) r))))))))"

fun port_rows :: "port_data list \<Rightarrow> error + row list" where
  "port_rows [] = Inr []"
| "port_rows (p # ps) =
     (case port_row p of
        Inl e \<Rightarrow> Inl e
      | Inr r \<Rightarrow> (case port_rows ps of Inl e \<Rightarrow> Inl e | Inr rs \<Rightarrow> Inr (r # rs)))"

definition extraport_row :: "extraport_data \<Rightarrow> row" where
  "extraport_row extraport =
     value_row (fstr (xp_count extraport) @ '' ports are in state: '' @ fstr (xp_state extraport))"

text \<open>The last loop: 9 point Calibri on every run of every cell of every row.\<close>

definition set_font :: "row \<Rightarrow> row" where
  "set_font r =
     map (\<lambda>c. c\<lparr>c_paragraphs :=
            map (map (\<lambda>u. u\<lparr>r_size := Some 9, r_name := Some ''Calibri''\<rparr>)) (c_paragraphs c)\<rparr>) r"

text \<open>The table of one host, and \<open>create_final_host_table\<close>, which appends it and a paragraph.\<close>

definition host_table :: "host_data \<Rightarrow> error + table" where
  "host_table host =
     (case port_rows (ports host) of
        Inl e \<Rightarrow> Inl e
      | Inr prs \<Rightarrow>
          Inr \<lparr>t_cols = 6, t_style = ''Table Grid'',
               t_rows = map set_font
                 ([band_row ''Address'', value_row (address host),
                   band_row ''Hostnames'', value_row (hostnames host),
                   titles_row]
                  @ prs @ map extraport_row (extraports host))\<rparr>)"

definition create_final_host_table :: "document \<Rightarrow> host_data \<Rightarrow> error + document" where
  "create_final_host_table doc host =
     (case host_table host of
        Inl e \<Rightarrow> Inl e
      | Inr t \<Rightarrow> Inr (doc @ [Table t, Paragraph []]))"

section \<open>The script\<close>

text \<open>
  The input file is either unreadable, with the text of the exception, or has contents.
  \<open>readline\<close> reads in text mode: a line ends at a line feed, a carriage return or the
  pair of them, and is returned with a line feed at its end.
\<close>

datatype input = Unreadable string | Contents string

fun readline :: "string \<Rightarrow> string \<times> string" where
  "readline [] = ([], [])"
| "readline (c # cs) =
     (if c = CHR 0x0A then ([CHR 0x0A], cs)
      else if c = CHR 0x0D then
        ([CHR 0x0A], (case cs of [] \<Rightarrow> [] | d # ds \<Rightarrow> if d = CHR 0x0A then ds else cs))
      else (case readline cs of (l, rest) \<Rightarrow> (c # l, rest)))"

definition xml_decl :: string where
  "xml_decl = [CHR 0x3C] @ ''?xml version='' @ [CHR 0x22] @ ''1.0'' @ [CHR 0x22]
     @ '' encoding='' @ [CHR 0x22] @ ''UTF-8'' @ [CHR 0x22] @ ''?'' @ [CHR 0x3E]"

definition doctype_decl :: string where
  "doctype_decl = [CHR 0x3C] @ ''!DOCTYPE nmaprun'' @ [CHR 0x3E]"

text \<open>\<open>check_xml_file\<close> returns its verdict and what it printed.\<close>

definition check_xml_file :: "input \<Rightarrow> bool \<times> string list" where
  "check_xml_file f =
     (case f of
        Unreadable e \<Rightarrow> (False, [''Error reading file: '' @ e])
      | Contents s \<Rightarrow>
          (case readline s of (first_line, rest) \<Rightarrow>
           case readline rest of (second_line, _) \<Rightarrow>
             (contains xml_decl first_line \<and> contains doctype_decl second_line, [])))"

definition diagnostic :: "string list" where
  "diagnostic =
     [''Invalid XML file.'',
      ''Please generate a valid Nmap file with a command like:'',
      ''sudo nmap -Pn -sC -sV -oX targets -iL targets.txt'']"

fun render_hosts :: "document \<Rightarrow> host_data list \<Rightarrow> error + document" where
  "render_hosts doc [] = Inr doc"
| "render_hosts doc (h # hs) =
     (case create_final_host_table doc h of
        Inl e \<Rightarrow> Inl e
      | Inr doc' \<Rightarrow> render_hosts doc' hs)"

definition output_name :: "string \<Rightarrow> string" where
  "output_name output_file =
     (if \<not> endswith output_file ''.docx'' then output_file @ ''.docx'' else output_file)"

text \<open>
  The outcome of a run: what was printed, the exit status, the exception that ended the
  run if one did, and the file that was saved if one was. \<open>ET_parse\<close> is the XML
  library's parser, from the contents of a file to its tree or \<open>None\<close> when it refuses
  them.
\<close>

record outcome =
  printed :: "string list"
  exit_status :: nat
  uncaught :: "error option"
  saved :: "(string \<times> document) option"

text \<open>Extraction, then one table per host into a new document.\<close>

definition build_document :: "element option \<Rightarrow> error + document" where
  "build_document tree = and_then (parse_nmap_xml tree) (render_hosts [])"

definition tables_of :: "document \<Rightarrow> table list" where
  "tables_of doc = concat (map (\<lambda>b. case b of Table t \<Rightarrow> [t] | Paragraph _ \<Rightarrow> []) doc)"

definition main :: "(string \<Rightarrow> element option) \<Rightarrow> input \<Rightarrow> string \<Rightarrow> outcome" where
  "main ET_parse input_file output_file =
     (case check_xml_file input_file of (ok, out) \<Rightarrow>
      if \<not> ok then \<lparr>printed = out @ diagnostic, exit_status = 1, uncaught = None, saved = None\<rparr>
      else
        (case build_document (case input_file of Contents s \<Rightarrow> ET_parse s | Unreadable _ \<Rightarrow> None) of
           Inl e \<Rightarrow> \<lparr>printed = out, exit_status = 1, uncaught = Some e, saved = None\<rparr>
         | Inr doc \<Rightarrow>
             \<lparr>printed = out, exit_status = 0, uncaught = None,
              saved = Some (output_name output_file, doc)\<rparr>))"

section \<open>Example inputs\<close>

definition example_port :: element where
  "example_port =
     Element ''port'' [(''protocol'', ''tcp''), (''portid'', ''80'')]
       [Element ''state'' [(''state'', ''open'')] []]"

definition example_host :: element where
  "example_host =
     Element ''host'' []
       [Element ''address'' [(''addr'', ''10.0.0.1''), (''addrtype'', ''ipv4'')] [],
        Element ''ports'' [] [example_port]]"

definition example_root :: element where
  "example_root = Element ''nmaprun'' [] [example_host]"

definition example_record :: host_data where
  "example_record =
     \<lparr>address = ''10.0.0.1 (IPV4)'', hostnames = [],
      ports = [\<lparr>portid = Some ''80'', protocol = Some ''tcp'', state = Some ''open'',
                service = Some [], product = Some [], version = Some []\<rparr>],
      extraports = []\<rparr>"

text \<open>A cell whose runs all have the default text colour.\<close>

definition default_text_color :: "cell \<Rightarrow> bool" where
  "default_text_color c = list_all (\<lambda>co. co = None) (run_colors c)"

section \<open>Notions the claims are stated with\<close>

text \<open>The port elements the extractor reads for a host: the \<open>port\<close> children of its first \<open>ports\<close> child.\<close>

definition host_port_elements :: "element \<Rightarrow> element list" where
  "host_port_elements host =
     (case find_elem host ''ports'' of
        None \<Rightarrow> []
      | Some ports_element \<Rightarrow> findall ports_element ''port'')"

text \<open>
  The address field in the words of the specification: an address element counts when
  its type is ipv4 or ipv6, it contributes its address and its type in upper case, the
  entries are accumulated with a comma and a space after each, and the result has its
  leading and trailing whitespace and its trailing comma stripped.
\<close>

definition is_ip_address :: "element \<Rightarrow> bool" where
  "is_ip_address a =
     (elem_get a ''addrtype'' = Some ''ipv4'' \<or> elem_get a ''addrtype'' = Some ''ipv6'')"

definition address_entry :: "element \<Rightarrow> string" where
  "address_entry a =
     fstr (elem_get a ''addr'') @ '' ('' @ upper (fstr (elem_get a ''addrtype'')) @ '')''"

definition rstrip_chars :: "string \<Rightarrow> string \<Rightarrow> string" where
  "rstrip_chars chars s = rev (dropWhile (\<lambda>c. c \<in> set chars) (rev s))"

definition spec_address :: "element \<Rightarrow> string" where
  "spec_address host =
     rstrip_chars '',''
       (strip (concat (map (\<lambda>a. address_entry a @ '', '')
                        (filter is_ip_address (findall host ''address'')))))"

section \<open>More example inputs\<close>

text \<open>A port whose service element has a name only.\<close>

definition example_port_ssh :: element where
  "example_port_ssh =
     Element ''port'' [(''protocol'', ''tcp''), (''portid'', ''22'')]
       [Element ''state'' [(''state'', ''filtered'')] [],
        Element ''service'' [(''name'', ''ssh'')] []]"

text \<open>A port with neither a state nor a service child.\<close>

definition example_port_bare :: element where
  "example_port_bare = Element ''port'' [] []"

text \<open>A host whose ports element holds the bare port, and a host that has it as a direct child.\<close>

definition example_host_bare :: element where
  "example_host_bare = Element ''host'' [] [Element ''ports'' [] [example_port, example_port_bare]]"

definition example_host_stray :: element where
  "example_host_stray = Element ''host'' [] [example_port_bare]"

text \<open>A host with two ports, the filtered one first.\<close>

definition example_host_two :: element where
  "example_host_two = Element ''host'' [] [Element ''ports'' [] [example_port_ssh, example_port]]"

text \<open>The tree of a report with a sound host and then the host whose second port is bare.\<close>

definition example_root_bare :: element where
  "example_root_bare = Element ''nmaprun'' [] [example_host, example_host_bare]"

text \<open>A host whose only address begins with a comma.\<close>

definition example_host_comma :: element where
  "example_host_comma =
     Element ''host'' [] [Element ''address'' [(''addr'', '',1''), (''addrtype'', ''ipv4'')] []]"

text \<open>A host with a MAC address, an address without \<open>addr\<close>, a hostname without attributes, and extraports.\<close>

definition example_host_none :: element where
  "example_host_none =
     Element ''host'' []
       [Element ''address'' [(''addr'', ''00:11:22:33:44:55''), (''addrtype'', ''mac'')] [],
        Element ''address'' [(''addrtype'', ''ipv4'')] [],
        Element ''hostnames'' [] [Element ''hostname'' [] []],
        Element ''ports'' []
          [Element ''extraports'' [(''state'', ''filtered''), (''count'', ''997'')] [],
           Element ''extraports'' [(''state'', ''closed''), (''count'', ''2'')] []]]"

text \<open>The two header lines the check looks for, as the contents of a file.\<close>

definition valid_header :: string where
  "valid_header = xml_decl @ [CHR 0x0A] @ doctype_decl @ [CHR 0x0A]"

text \<open>
  A port and an extraports element with a carriage return in an attribute, as the
  character reference 13 in the file gives it, and a host that holds them.
\<close>

definition example_port_cr :: element where
  "example_port_cr =
     Element ''port'' [(''protocol'', ''tcp''), (''portid'', [CHR ''8'', CHR 0x0D, CHR ''0''])]
       [Element ''state'' [(''state'', ''closed'')] []]"

definition example_host_cr :: element where
  "example_host_cr =
     Element ''host'' []
       [Element ''ports'' []
          [example_port_cr,
           Element ''extraports''
             [(''state'', ''filtered''), (''count'', [CHR ''9'', CHR 0x0D, CHR ''7''])] []]]"

section \<open>Rows and tables: basic facts\<close>

lemma add_row_6: "add_row 6 = [new_cell, new_cell, new_cell, new_cell, new_cell, new_cell]"
  by (simp add: add_row_def numeral_eq_Suc)

text \<open>A text without a carriage return is stored, and read back, as it is.\<close>

lemma stored_text_plain: "CHR 0x0D \<notin> set s \<Longrightarrow> stored_text s = s"
  by (induction s) (auto simp add: stored_text_def)

lemma band_row_eq:
  "band_row label = [\<lparr>c_span = 6, c_shd = [''E94347''],
     c_paragraphs = [[\<lparr>r_text = stored_text label, r_color = Some ''FFFFFF'', r_size = None,
       r_name = None\<rparr>]]\<rparr>]"
  by (simp add: band_row_def add_row_6 merge_row_def new_cell_def with_text_def new_run_def
      set_cell_background_color_def)

lemma value_row_eq:
  "value_row v = [\<lparr>c_span = 6, c_shd = [],
     c_paragraphs = [[\<lparr>r_text = stored_text v, r_color = None, r_size = None, r_name = None\<rparr>]]\<rparr>]"
  by (simp add: value_row_def add_row_6 merge_row_def new_cell_def with_text_def new_run_def)

lemma titles_row_eq:
  "titles_row = map (\<lambda>s. \<lparr>c_span = 1, c_shd = [''E94347''],
     c_paragraphs = [[\<lparr>r_text = stored_text s, r_color = Some ''FFFFFF'', r_size = None,
       r_name = None\<rparr>]]\<rparr>) headers"
  by (simp add: titles_row_def headers_def add_row_6 enumerate_eq_zip upt_rec
      with_text_def set_cell_background_color_def new_cell_def new_run_def)

lemma port_row_eq:
  "port_row p =
     (case (portid p, protocol p, state p, service p) of
        (Some a, Some b, Some c, Some d) \<Rightarrow>
          Inr (map (\<lambda>s. \<lparr>c_span = 1, c_shd = [if c = ''open'' then ''EAF1DD'' else ''F2DBDB''],
                 c_paragraphs = [[\<lparr>r_text = stored_text s, r_color = None, r_size = None,
                   r_name = None\<rparr>]]\<rparr>)
            [a, b, c, d, (case product p of None \<Rightarrow> [] | Some s \<Rightarrow> s),
             (case version p of None \<Rightarrow> [] | Some s \<Rightarrow> s)])
      | _ \<Rightarrow> Inl TypeError)"
  by (simp add: port_row_def add_row_6 and_then_def set_text_at_def set_text_def with_text_def
      new_cell_def new_run_def set_cell_background_color_def split: option.splits)

lemma set_font_length: "length (set_font r) = length r"
  by (simp add: set_font_def)

lemma run_colors_set_font: "map run_colors (set_font r) = map run_colors r"
  by (simp add: set_font_def run_colors_def map_concat comp_def)

lemma c_shd_set_font: "map c_shd (set_font r) = map c_shd r"
  by (simp add: set_font_def comp_def)

lemma c_span_set_font: "map c_span (set_font r) = map c_span r"
  by (simp add: set_font_def comp_def)

lemma cell_text_set_font: "map cell_text (set_font r) = map cell_text r"
  by (simp add: set_font_def cell_text_def comp_def)

lemma port_rows_list_all2:
  "port_rows ps = Inr rs \<Longrightarrow> list_all2 (\<lambda>p r. port_row p = Inr r) ps rs"
  by (induction ps arbitrary: rs) (auto split: sum.splits)

lemma parse_ports_list_all2:
  "parse_ports ps = Inr ds \<Longrightarrow> list_all2 (\<lambda>p d. parse_port p = Inr d) ps ds"
  by (induction ps arbitrary: ds) (auto split: sum.splits)

lemma host_table_rows:
  "host_table d = Inr t \<Longrightarrow>
   \<exists>prs. port_rows (ports d) = Inr prs \<and>
     t_rows t = map set_font
       ([band_row ''Address'', value_row (address d), band_row ''Hostnames'',
         value_row (hostnames d), titles_row] @ prs @ map extraport_row (extraports d))"
  by (auto simp add: host_table_def split: sum.splits)

lemma port_rows_total:
  "list_all (\<lambda>p. portid p \<noteq> None \<and> protocol p \<noteq> None \<and> state p \<noteq> None \<and> service p \<noteq> None) ps
   \<Longrightarrow> \<exists>rs. port_rows ps = Inr rs"
  by (induction ps) (auto simp add: port_row_eq split: option.splits)

section \<open>The claims\<close>

text \<open>
  C1 (as amended). For every rendered host table, the six cells of the column-header row
  carry the labels Port, Protocol, State, Service, Product, Version and the fill E94347,
  and the colour of their runs is set to FFFFFF, exactly as in the Address and
  Hostnames bands (rows 0 and 2): the renderer passes the text colour for the column
  headers too.
\<close>

theorem C1_column_headers_white:
  "host_table d = Inr t \<Longrightarrow>
     map cell_text (t_rows t ! 4) = headers \<and>
     map c_shd (t_rows t ! 4) = replicate 6 [''E94347''] \<and>
     map run_colors (t_rows t ! 4) = replicate 6 [Some ''FFFFFF''] \<and>
     map run_colors (t_rows t ! 0) = [[Some ''FFFFFF'']] \<and>
     map run_colors (t_rows t ! 2) = [[Some ''FFFFFF'']]"
proof -
  assume "host_table d = Inr t"
  then obtain rest where rows:
    "t_rows t = set_font (band_row ''Address'') # set_font (value_row (address d))
       # set_font (band_row ''Hostnames'') # set_font (value_row (hostnames d))
       # set_font titles_row # rest"
    by (auto dest: host_table_rows)
  have "map cell_text titles_row = headers"
    by (simp add: titles_row_eq headers_def cell_text_def stored_text_def)
  moreover have "map c_shd titles_row = replicate 6 [''E94347'']"
    by (simp add: titles_row_eq headers_def numeral_eq_Suc)
  moreover have "map run_colors titles_row = replicate 6 [Some ''FFFFFF'']"
    by (simp add: titles_row_eq headers_def run_colors_def numeral_eq_Suc)
  moreover have "map run_colors (band_row l) = [[Some ''FFFFFF'']]" for l
    by (simp add: band_row_eq run_colors_def)
  ultimately show ?thesis
    by (simp add: rows cell_text_set_font c_shd_set_font run_colors_set_font)
qed

theorem C1_column_headers_white_witness:
  "host_table example_record = Inr (projr (host_table example_record)) \<and>
   map cell_text (t_rows (projr (host_table example_record)) ! 4) =
     [''Port'', ''Protocol'', ''State'', ''Service'', ''Product'', ''Version''] \<and>
   map c_shd (t_rows (projr (host_table example_record)) ! 4) = replicate 6 [''E94347''] \<and>
   map run_colors (t_rows (projr (host_table example_record)) ! 4) = replicate 6 [Some ''FFFFFF'']"
proof -
  have h: "host_table example_record = Inr (projr (host_table example_record))"
    by (simp add: host_table_def example_record_def port_row_eq)
  from C1_column_headers_white [OF h] h show ?thesis
    by (simp add: headers_def)
qed

text \<open>
  C1 as stated fails: in the table of the example record the runs of the column-header
  cells do not have the default colour.
\<close>

theorem C1_counterexample:
  "\<not> isl (host_table example_record) \<and>
   \<not> list_all default_text_color (t_rows (projr (host_table example_record)) ! 4)"
  by (simp add: host_table_def example_record_def port_row_eq titles_row_eq headers_def
      set_font_def default_text_color_def run_colors_def)

lemma upper_ipv4: "upper ''ipv4'' = ''IPV4''"
  by code_simp

lemma upper_ipv6: "upper ''ipv6'' = ''IPV6''"
  by code_simp

lemma example_parse: "parse_nmap_xml (Some example_root) = Inr [example_record]"
  by (simp add: parse_nmap_xml_def findall_descendants_def example_root_def example_host_def
      example_port_def parse_host_def find_elem_def findall_def parse_port_def elem_get_def
      parse_extraports_def host_address_def host_hostnames_def fstr_def upper_ipv4
      strip_def strip_chars_def strip_with_def isspace_def example_record_def)

text \<open>
  C2 (as amended). For an input with exactly one host element, whose ports element has
  exactly one port element, that port being open and carrying its portid and protocol
  (and a name on its service element when it has one), and no extraports element, with
  or without hostnames, the renderer produces exactly one table, of exactly 6 rows: the
  2 header bands, the 2 value rows, the column-header row and 1 port row, filled
  EAF1DD.
\<close>

theorem C2_single_open_port_six_rows:
  assumes hosts: "findall_descendants root ''host'' = [h]"
      and pe: "find_elem h ''ports'' = Some pe"
      and p: "findall pe ''port'' = [p]"
      and xp: "find_elem pe ''extraports'' = None"
      and pid: "elem_get p ''portid'' \<noteq> None"
      and proto: "elem_get p ''protocol'' \<noteq> None"
      and st: "find_elem p ''state'' = Some st"
      and "open": "elem_get st ''state'' = Some ''open''"
      and sv: "\<forall>sv. find_elem p ''service'' = Some sv \<longrightarrow> elem_get sv ''name'' \<noteq> None"
  shows "\<exists>t. build_document (Some root) = Inr [Table t, Paragraph []] \<and>
           tables_of [Table t, Paragraph []] = [t] \<and>
           length (t_rows t) = 6 \<and>
           take 5 (t_rows t) = map set_font
             [band_row ''Address'', value_row (host_address h),
              band_row ''Hostnames'', value_row (host_hostnames h), titles_row] \<and>
           map c_shd (t_rows t ! 5) = replicate 6 [''EAF1DD'']"
proof -
  obtain d where d: "parse_port p = Inr d" and dstate: "state d = Some ''open''"
    and dok: "portid d \<noteq> None \<and> protocol d \<noteq> None \<and> service d \<noteq> None"
    using pid proto st "open" sv by (auto simp add: parse_port_def split: option.splits)
  have ph: "parse_host h = Inr \<lparr>address = host_address h, hostnames = host_hostnames h,
      ports = [d], extraports = []\<rparr>"
    by (simp add: parse_host_def pe p d parse_extraports_def xp)
  obtain r where r: "port_row d = Inr r" and rlen: "length r = 6"
    and rshd: "map c_shd r = replicate 6 [''EAF1DD'']"
    using dstate dok by (auto simp add: port_row_eq numeral_eq_Suc split: option.splits)
  let ?t = "\<lparr>t_cols = 6, t_style = ''Table Grid'',
      t_rows = map set_font [band_row ''Address'', value_row (host_address h),
        band_row ''Hostnames'', value_row (host_hostnames h), titles_row, r]\<rparr>"
  have "build_document (Some root) = Inr [Table ?t, Paragraph []]"
    by (simp add: build_document_def parse_nmap_xml_def hosts ph and_then_def
        create_final_host_table_def host_table_def r)
  moreover have "tables_of [Table ?t, Paragraph []] = [?t]"
    by (simp add: tables_of_def)
  moreover have "map c_shd (t_rows ?t ! 5) = replicate 6 [''EAF1DD'']"
    using rshd c_shd_set_font [of r] by simp
  ultimately show ?thesis
    by (intro exI [of _ ?t]) simp
qed

theorem C2_single_open_port_six_rows_witness:
  "\<exists>t. build_document (Some example_root) = Inr [Table t, Paragraph []] \<and>
       tables_of [Table t, Paragraph []] = [t] \<and> length (t_rows t) = 6"
proof -
  have 1: "findall_descendants example_root ''host'' = [example_host]"
    by (simp add: example_root_def example_host_def example_port_def findall_descendants_def)
  have 2: "find_elem example_host ''ports'' = Some (Element ''ports'' [] [example_port])"
    by (simp add: example_host_def find_elem_def findall_def)
  have 3: "findall (Element ''ports'' [] [example_port]) ''port'' = [example_port]"
    by (simp add: findall_def example_port_def)
  have 4: "find_elem (Element ''ports'' [] [example_port]) ''extraports'' = None"
    by (simp add: find_elem_def findall_def example_port_def)
  have 5: "elem_get example_port ''portid'' \<noteq> None" "elem_get example_port ''protocol'' \<noteq> None"
    by (simp_all add: elem_get_def example_port_def)
  have 6: "find_elem example_port ''state'' = Some (Element ''state'' [(''state'', ''open'')] [])"
    by (simp add: find_elem_def findall_def example_port_def)
  have 7: "elem_get (Element ''state'' [(''state'', ''open'')] []) ''state'' = Some ''open''"
    by (simp add: elem_get_def)
  have 8: "\<forall>sv. find_elem example_port ''service'' = Some sv \<longrightarrow> elem_get sv ''name'' \<noteq> None"
    by (simp add: find_elem_def findall_def example_port_def)
  from C2_single_open_port_six_rows [OF 1 2 3 4 5 6 7 8] show ?thesis
    by blast
qed

text \<open>
  C2 as stated fails: the example input, one host with one open port, renders as one
  table of 6 rows, not 7.
\<close>

theorem C2_counterexample:
  "\<not> isl (build_document (Some example_root)) \<and>
   length (tables_of (projr (build_document (Some example_root)))) = 1 \<and>
   length (t_rows (hd (tables_of (projr (build_document (Some example_root)))))) = 6 \<and>
   length (t_rows (hd (tables_of (projr (build_document (Some example_root)))))) \<noteq> 7"
  using example_parse
  by (simp add: build_document_def and_then_def create_final_host_table_def host_table_def
      example_record_def port_row_eq tables_of_def)

lemma cell_text_one: "cell_text \<lparr>c_span = n, c_shd = f, c_paragraphs = [[\<lparr>r_text = s, r_color = co, r_size = sz, r_name = nm\<rparr>]]\<rparr> = s"
  by (simp add: cell_text_def)

text \<open>
  C3 (as amended). In every extracted host record the address is the empty string when
  no address element of type ipv4 or ipv6 is present, and the hostnames text is the
  empty string when there is no hostnames element. In every extracted port record
  service, product and version are the empty string when the port has no service
  element; when it has one, product and version are what \<open>get\<close> returns for the
  attribute, which is \<open>None\<close> for an absent attribute, and the renderer's checks on
  product and version put the empty string into the cell for \<open>None\<close> (and the value,
  as the document library stores it, otherwise).
\<close>

theorem C3_absent_fields:
  "(parse_host h = Inr hrec \<longrightarrow>
      (filter is_ip_address (findall h ''address'') = [] \<longrightarrow> address hrec = []) \<and>
      (find_elem h ''hostnames'' = None \<longrightarrow> hostnames hrec = [])) \<and>
   (parse_port p = Inr d \<longrightarrow>
      (find_elem p ''service'' = None \<longrightarrow>
         service d = Some [] \<and> product d = Some [] \<and> version d = Some []) \<and>
      (\<forall>sv. find_elem p ''service'' = Some sv \<longrightarrow>
         product d = elem_get sv ''product'' \<and> version d = elem_get sv ''version'') \<and>
      (\<forall>r. port_row d = Inr r \<longrightarrow>
         cell_text (r ! 4) = (case product d of None \<Rightarrow> [] | Some s \<Rightarrow> stored_text s) \<and>
         cell_text (r ! 5) = (case version d of None \<Rightarrow> [] | Some s \<Rightarrow> stored_text s)))"
proof -
  have loop: "filter is_ip_address as = [] \<Longrightarrow> address_loop acc as = acc" for as acc
    by (induction as arbitrary: acc) (auto simp add: is_ip_address_def split: option.splits if_splits)
  have "parse_host h = Inr hrec \<Longrightarrow> address hrec = host_address h \<and> hostnames hrec = host_hostnames h"
    by (auto simp add: parse_host_def split: option.splits sum.splits)
  moreover have "filter is_ip_address (findall h ''address'') = [] \<Longrightarrow> host_address h = []"
    by (simp add: host_address_def loop strip_def strip_chars_def strip_with_def)
  moreover have "find_elem h ''hostnames'' = None \<Longrightarrow> host_hostnames h = []"
    by (simp add: host_hostnames_def)
  moreover have "parse_port p = Inr d \<Longrightarrow> find_elem p ''service'' = None \<Longrightarrow>
      service d = Some [] \<and> product d = Some [] \<and> version d = Some []"
    by (auto simp add: parse_port_def split: option.splits)
  moreover have "parse_port p = Inr d \<Longrightarrow> find_elem p ''service'' = Some sv \<Longrightarrow>
      product d = elem_get sv ''product'' \<and> version d = elem_get sv ''version''" for sv
    by (auto simp add: parse_port_def split: option.splits)
  moreover have "port_row d = Inr r \<Longrightarrow>
      cell_text (r ! 4) = (case product d of None \<Rightarrow> [] | Some s \<Rightarrow> stored_text s) \<and>
      cell_text (r ! 5) = (case version d of None \<Rightarrow> [] | Some s \<Rightarrow> stored_text s)" for r
    by (auto simp add: port_row_eq cell_text_one stored_text_def split: option.splits)
  ultimately show ?thesis by simp
qed

theorem C3_absent_fields_witness:
  "parse_host example_host_stray = Inr (projr (parse_host example_host_stray)) \<and>
   address (projr (parse_host example_host_stray)) = [] \<and>
   hostnames (projr (parse_host example_host_stray)) = [] \<and>
   parse_port example_port_ssh = Inr (projr (parse_port example_port_ssh)) \<and>
   product (projr (parse_port example_port_ssh)) = None \<and>
   port_row (projr (parse_port example_port_ssh)) = Inr (projr (port_row (projr (parse_port example_port_ssh)))) \<and>
   cell_text (projr (port_row (projr (parse_port example_port_ssh))) ! 4) = [] \<and>
   parse_port example_port = Inr (projr (parse_port example_port)) \<and>
   service (projr (parse_port example_port)) = Some [] \<and>
   product (projr (parse_port example_port)) = Some [] \<and>
   version (projr (parse_port example_port)) = Some []"
proof -
  have h: "parse_host example_host_stray = Inr (projr (parse_host example_host_stray))"
    "filter is_ip_address (findall example_host_stray ''address'') = []"
    "find_elem example_host_stray ''hostnames'' = None"
    by (simp_all add: parse_host_def example_host_stray_def example_port_bare_def find_elem_def findall_def)
  have p: "parse_port example_port_ssh = Inr (projr (parse_port example_port_ssh))"
    "find_elem example_port_ssh ''service'' = Some (Element ''service'' [(''name'', ''ssh'')] [])"
    "elem_get (Element ''service'' [(''name'', ''ssh'')] []) ''product'' = None"
    by (simp_all add: parse_port_def example_port_ssh_def find_elem_def findall_def elem_get_def)
  have r: "port_row (projr (parse_port example_port_ssh)) = Inr (projr (port_row (projr (parse_port example_port_ssh))))"
    by (simp add: parse_port_def example_port_ssh_def find_elem_def findall_def elem_get_def port_row_eq)
  have q: "parse_port example_port = Inr (projr (parse_port example_port))"
    "find_elem example_port ''service'' = None"
    by (simp_all add: parse_port_def example_port_def find_elem_def findall_def)
  from C3_absent_fields [of example_host_stray "projr (parse_host example_host_stray)"
      example_port_ssh "projr (parse_port example_port_ssh)"]
    C3_absent_fields [of example_host_stray "projr (parse_host example_host_stray)"
      example_port "projr (parse_port example_port)"]
    h p r q
  show ?thesis by simp
qed

text \<open>
  C3 as stated fails: a port whose service element has a name only is extracted with
  product and version \<open>None\<close>, not the empty string.
\<close>

theorem C3_counterexample:
  "\<not> isl (parse_port example_port_ssh) \<and>
   product (projr (parse_port example_port_ssh)) = None \<and>
   version (projr (parse_port example_port_ssh)) = None"
  by (simp add: parse_port_def example_port_ssh_def find_elem_def findall_def elem_get_def)

text \<open>
  C5 (as amended). For every port element that has a state child and no service child,
  extraction of the port succeeds and its record has service, product and version all
  equal to the empty string.
\<close>

theorem C5_missing_service:
  "find_elem p ''service'' = None \<Longrightarrow> find_elem p ''state'' \<noteq> None \<Longrightarrow>
   \<exists>d. parse_port p = Inr d \<and> service d = Some [] \<and> product d = Some [] \<and> version d = Some []"
  by (auto simp add: parse_port_def split: option.splits)

theorem C5_missing_service_witness:
  "find_elem example_port ''service'' = None \<and> find_elem example_port ''state'' \<noteq> None \<and>
   (\<exists>d. parse_port example_port = Inr d \<and>
      service d = Some [] \<and> product d = Some [] \<and> version d = Some [])"
proof -
  have 1: "find_elem example_port ''service'' = None"
    by (simp add: example_port_def find_elem_def findall_def)
  have 2: "find_elem example_port ''state'' \<noteq> None"
    by (simp add: example_port_def find_elem_def findall_def)
  from C5_missing_service [OF 1 2] 1 2 show ?thesis by simp
qed

text \<open>
  C5 as stated fails: a port element with no service child and no state child either
  is not extracted, the lookup of its state raises.
\<close>

theorem C5_counterexample:
  "find_elem example_port_bare ''service'' = None \<and>
   parse_port example_port_bare = Inl AttributeError"
  by (simp add: parse_port_def example_port_bare_def find_elem_def findall_def)

lemma valid_header_ok: "check_xml_file (Contents valid_header) = (True, [])"
  by (simp add: check_xml_file_def valid_header_def xml_decl_def doctype_decl_def)

lemma parse_port_error: "parse_port p = Inl e \<Longrightarrow> e = AttributeError"
  by (auto simp add: parse_port_def split: option.splits)

lemma parse_ports_error: "parse_ports ps = Inl e \<Longrightarrow> e = AttributeError"
  by (induction ps) (auto split: sum.splits dest: parse_port_error)

lemma parse_ports_no_state:
  "p \<in> set ps \<Longrightarrow> find_elem p ''state'' = None \<Longrightarrow> parse_ports ps = Inl AttributeError"
proof (induction ps)
  case Nil
  then show ?case by simp
next
  case (Cons q qs)
  show ?case
  proof (cases "parse_port q")
    case (Inl e)
    then show ?thesis by (simp add: parse_port_error)
  next
    case (Inr d)
    with Cons have "p \<in> set qs" by (auto simp add: parse_port_def)
    with Cons Inr show ?thesis by simp
  qed
qed

lemma parse_host_error: "parse_host h = Inl e \<Longrightarrow> e = AttributeError"
  by (auto simp add: parse_host_def split: option.splits sum.splits dest: parse_ports_error)

lemma parse_host_no_state:
  assumes "p \<in> set (host_port_elements h)" and "find_elem p ''state'' = None"
  shows "parse_host h = Inl AttributeError"
proof (cases "find_elem h ''ports''")
  case None
  with assms show ?thesis by (simp add: host_port_elements_def)
next
  case (Some pe)
  with assms have "parse_ports (findall pe ''port'') = Inl AttributeError"
    by (simp add: host_port_elements_def parse_ports_no_state)
  with Some show ?thesis by (simp add: parse_host_def)
qed

lemma parse_hosts_failing:
  "h \<in> set hs \<Longrightarrow> parse_host h = Inl AttributeError \<Longrightarrow> parse_hosts hs = Inl AttributeError"
proof (induction hs)
  case Nil
  then show ?case by simp
next
  case (Cons g gs)
  show ?case
  proof (cases "parse_host g")
    case (Inl e)
    then show ?thesis by (simp add: parse_host_error)
  next
    case (Inr d)
    with Cons have "h \<in> set gs" by auto
    with Cons Inr show ?thesis by simp
  qed
qed

lemma main_build_failed:
  assumes "build_document (ET_parse s) = Inl e"
  shows "exit_status (main ET_parse (Contents s) out) = 1 \<and>
      saved (main ET_parse (Contents s) out) = None \<and>
      (fst (check_xml_file (Contents s)) \<longrightarrow>
         uncaught (main ET_parse (Contents s) out) = Some e)"
proof (cases "check_xml_file (Contents s)")
  case (Pair ok printed_lines)
  with assms show ?thesis by (simp add: main_def)
qed

text \<open>
  C6. For every input whose XML the parser refuses, and for every parsed input in which
  a port of a host has no state child, the run ends with exit status 1 and no document
  is saved; when the header check has passed, it ends by the uncaught error of the
  parser or of the state lookup. The hosts of a report are the host elements below
  its root, and the ports of a host are the port children of its ports element, the
  first one if there are several: these are the elements the extractor visits.
\<close>

theorem C6_fatal_no_output:
  "(ET_parse s = None \<longrightarrow>
      exit_status (main ET_parse (Contents s) out) = 1 \<and>
      saved (main ET_parse (Contents s) out) = None \<and>
      (fst (check_xml_file (Contents s)) \<longrightarrow>
         uncaught (main ET_parse (Contents s) out) = Some XMLSyntaxError)) \<and>
   (ET_parse s = Some root \<and> h \<in> set (findall_descendants root ''host'') \<and>
    p \<in> set (host_port_elements h) \<and> find_elem p ''state'' = None \<longrightarrow>
      exit_status (main ET_parse (Contents s) out) = 1 \<and>
      saved (main ET_parse (Contents s) out) = None \<and>
      (fst (check_xml_file (Contents s)) \<longrightarrow>
         uncaught (main ET_parse (Contents s) out) = Some AttributeError))"
proof (rule conjI; rule impI)
  assume "ET_parse s = None"
  then have "build_document (ET_parse s) = Inl XMLSyntaxError"
    by (simp add: build_document_def parse_nmap_xml_def and_then_def)
  then show "exit_status (main ET_parse (Contents s) out) = 1 \<and>
      saved (main ET_parse (Contents s) out) = None \<and>
      (fst (check_xml_file (Contents s)) \<longrightarrow>
         uncaught (main ET_parse (Contents s) out) = Some XMLSyntaxError)"
    by (rule main_build_failed)
next
  assume a: "ET_parse s = Some root \<and> h \<in> set (findall_descendants root ''host'') \<and>
    p \<in> set (host_port_elements h) \<and> find_elem p ''state'' = None"
  then have "parse_hosts (findall_descendants root ''host'') = Inl AttributeError"
    by (blast intro: parse_hosts_failing parse_host_no_state)
  with a have "build_document (ET_parse s) = Inl AttributeError"
    by (simp add: build_document_def parse_nmap_xml_def and_then_def)
  then show "exit_status (main ET_parse (Contents s) out) = 1 \<and>
      saved (main ET_parse (Contents s) out) = None \<and>
      (fst (check_xml_file (Contents s)) \<longrightarrow>
         uncaught (main ET_parse (Contents s) out) = Some AttributeError)"
    by (rule main_build_failed)
qed

theorem C6_fatal_no_output_witness:
  "fst (check_xml_file (Contents valid_header)) \<and>
   exit_status (main (\<lambda>s. None) (Contents valid_header) ''report'') = 1 \<and>
   saved (main (\<lambda>s. None) (Contents valid_header) ''report'') = None \<and>
   uncaught (main (\<lambda>s. None) (Contents valid_header) ''report'') = Some XMLSyntaxError \<and>
   example_host_bare \<in> set (findall_descendants example_root_bare ''host'') \<and>
   example_port_bare \<in> set (host_port_elements example_host_bare) \<and>
   find_elem example_port_bare ''state'' = None \<and>
   exit_status (main (\<lambda>s. Some example_root_bare) (Contents valid_header) ''report'') = 1 \<and>
   saved (main (\<lambda>s. Some example_root_bare) (Contents valid_header) ''report'') = None \<and>
   uncaught (main (\<lambda>s. Some example_root_bare) (Contents valid_header) ''report'') = Some AttributeError"
proof -
  have 1: "fst (check_xml_file (Contents valid_header))"
    by (simp add: valid_header_ok)
  have 2: "example_host_bare \<in> set (findall_descendants example_root_bare ''host'')"
    by (simp add: findall_descendants_def example_root_bare_def example_host_bare_def
        example_host_def example_port_def example_port_bare_def)
  have 3: "example_port_bare \<in> set (host_port_elements example_host_bare)"
    by (simp add: host_port_elements_def example_host_bare_def find_elem_def findall_def
        example_port_def example_port_bare_def)
  have 4: "find_elem example_port_bare ''state'' = None"
    by (simp add: find_elem_def findall_def example_port_bare_def)
  from C6_fatal_no_output [of "\<lambda>s. None" valid_header "''report''"]
    C6_fatal_no_output [of "\<lambda>s. Some example_root_bare" valid_header "''report''"
      example_root_bare example_host_bare example_port_bare]
    1 2 3 4
  show ?thesis by simp
qed

text \<open>
  C8. For every input file that cannot be opened, or whose first line does not contain
  the XML declaration, or whose second line does not contain the DOCTYPE, the tool
  prints the fixed three-line diagnostic with the example scan command (after the line
  reporting the exception, when the file could not be read), ends with exit status 1
  and saves no file, whatever the XML parser would have made of it.
\<close>

theorem C8_invalid_input:
  "main ET_parse (Unreadable e) out =
     \<lparr>printed = [''Error reading file: '' @ e] @ diagnostic, exit_status = 1,
      uncaught = None, saved = None\<rparr> \<and>
   (\<not> contains xml_decl (fst (readline s)) \<or>
    \<not> contains doctype_decl (fst (readline (snd (readline s)))) \<longrightarrow>
    main ET_parse (Contents s) out =
      \<lparr>printed = diagnostic, exit_status = 1, uncaught = None, saved = None\<rparr>)"
  by (auto simp add: main_def check_xml_file_def split: prod.splits)

theorem C8_invalid_input_witness:
  "\<not> contains doctype_decl (fst (readline (snd (readline (xml_decl @ [CHR 0x0A] @ ''<nmaprun/>''))))) \<and>
   main (\<lambda>s. Some example_root) (Contents (xml_decl @ [CHR 0x0A] @ ''<nmaprun/>'')) ''report'' =
     \<lparr>printed = [''Invalid XML file.'',
        ''Please generate a valid Nmap file with a command like:'',
        ''sudo nmap -Pn -sC -sV -oX targets -iL targets.txt''],
      exit_status = 1, uncaught = None, saved = None\<rparr> \<and>
   main (\<lambda>s. Some example_root) (Unreadable ''No such file'') ''report'' =
     \<lparr>printed = [''Error reading file: No such file'', ''Invalid XML file.'',
        ''Please generate a valid Nmap file with a command like:'',
        ''sudo nmap -Pn -sC -sV -oX targets -iL targets.txt''],
      exit_status = 1, uncaught = None, saved = None\<rparr>"
proof -
  have 1: "\<not> contains doctype_decl (fst (readline (snd (readline (xml_decl @ [CHR 0x0A] @ ''<nmaprun/>'')))))"
    by (simp add: xml_decl_def doctype_decl_def)
  from C8_invalid_input [of "\<lambda>s. Some example_root" "''No such file''" "''report''"
      "xml_decl @ [CHR 0x0A] @ ''<nmaprun/>''"] 1
  show ?thesis by (simp add: diagnostic_def)
qed

section \<open>The address field\<close>

lemma address_loop_eq:
  "address_loop acc as =
     acc @ concat (map (\<lambda>a. address_entry a @ '', '') (filter is_ip_address as))"
  by (induction as arbitrary: acc)
    (auto simp add: is_ip_address_def address_entry_def fstr_def split: option.splits)

lemma concat_entries_join:
  "es \<noteq> [] \<Longrightarrow> concat (map (\<lambda>e. e @ sep) es) = join sep es @ sep"
  by (induction sep es rule: join.induct) auto

lemma join_last:
  "es \<noteq> [] \<Longrightarrow> \<forall>e \<in> set es. e \<noteq> [] \<and> last e = c \<Longrightarrow>
   join sep es \<noteq> [] \<and> last (join sep es) = c"
  by (induction sep es rule: join.induct) auto

lemma address_entry_last: "address_entry a \<noteq> [] \<and> last (address_entry a) = CHR '')''"
  by (simp add: address_entry_def)

lemma dropWhile_append_last:
  "xs \<noteq> [] \<Longrightarrow> \<not> P (last xs) \<Longrightarrow> dropWhile P (xs @ ys) = dropWhile P xs @ ys"
  by (rule dropWhile_append1 [of "last xs"]) simp_all

lemma dropWhile_keeps_last:
  "xs \<noteq> [] \<Longrightarrow> \<not> P (last xs) \<Longrightarrow> dropWhile P xs \<noteq> [] \<and> last (dropWhile P xs) = last xs"
  by (induction xs) (auto split: if_splits)

lemma rev_dropWhile_rev_last:
  "xs \<noteq> [] \<Longrightarrow> \<not> P (last xs) \<Longrightarrow> rev (dropWhile P (rev xs)) = xs"
  by (cases xs rule: rev_cases) auto

lemma isspace_chars: "isspace CHR '' ''" "\<not> isspace CHR '',''" "\<not> isspace CHR '')''"
  by (simp_all add: isspace_def)

lemma strip_entries:
  assumes "xs \<noteq> []" and "last xs = CHR '')''"
  shows "strip (xs @ '', '') = dropWhile isspace xs @ '',''"
proof -
  have 1: "dropWhile isspace (xs @ '', '') = dropWhile isspace xs @ '', ''"
    using assms by (simp add: dropWhile_append_last isspace_chars)
  show ?thesis
    by (simp add: strip_def strip_with_def 1 isspace_chars)
qed

lemma strip_commas_entries:
  assumes "ys \<noteq> []" and "last ys = CHR '')''"
  shows "strip_chars '','' (ys @ '','') = dropWhile (\<lambda>c. c = CHR '','') ys"
proof -
  let ?Q = "\<lambda>c. c = CHR '',''"
  have 1: "dropWhile ?Q (ys @ '','') = dropWhile ?Q ys @ '',''"
    using assms by (simp add: dropWhile_append_last)
  have 2: "dropWhile ?Q ys \<noteq> [] \<and> last (dropWhile ?Q ys) = CHR '')''"
    using assms dropWhile_keeps_last [of ys ?Q] by simp
  have 3: "dropWhile ?Q (CHR '','' # rev (dropWhile ?Q ys)) = rev (dropWhile ?Q ys)"
    using 2 by (cases "dropWhile ?Q ys" rule: rev_cases) auto
  have "strip_chars '','' (ys @ '','') = rev (dropWhile ?Q (rev (dropWhile ?Q (ys @ '',''))))"
    by (simp add: strip_chars_def strip_with_def)
  also have "\<dots> = rev (dropWhile ?Q (CHR '','' # rev (dropWhile ?Q ys)))"
    by (simp only: 1) simp
  also have "\<dots> = dropWhile ?Q ys"
    by (simp only: 3) simp
  finally show ?thesis .
qed

lemma rstrip_commas_entries:
  assumes "ys \<noteq> []" and "last ys = CHR '')''"
  shows "rstrip_chars '','' (ys @ '','') = ys"
proof -
  have "dropWhile (\<lambda>c. c = CHR '','') (rev ys) = rev ys"
    using assms by (cases ys rule: rev_cases) auto
  then show ?thesis
    by (simp add: rstrip_chars_def)
qed

lemma host_address_eq:
  "host_address h = dropWhile (\<lambda>c. c = CHR '','')
     (dropWhile isspace (join '', '' (map address_entry (filter is_ip_address (findall h ''address'')))))"
proof (cases "filter is_ip_address (findall h ''address'') = []")
  case True
  then show ?thesis
    by (simp add: host_address_def address_loop_eq strip_def strip_chars_def strip_with_def)
next
  case False
  let ?es = "map address_entry (filter is_ip_address (findall h ''address''))"
  let ?J = "join '', '' ?es"
  have es: "?es \<noteq> []" using False by simp
  have acc: "address_loop [] (findall h ''address'') = ?J @ '', ''"
    using concat_entries_join [OF es, of "'', ''"] by (simp add: address_loop_eq map_concat comp_def)
  have J: "?J \<noteq> [] \<and> last ?J = CHR '')''"
    by (rule join_last [OF es]) (auto simp add: address_entry_last)
  then have D: "dropWhile isspace ?J \<noteq> [] \<and> last (dropWhile isspace ?J) = CHR '')''"
    using dropWhile_keeps_last [of ?J isspace] by (simp add: isspace_chars)
  show ?thesis
    using J D by (simp add: host_address_def acc strip_entries strip_commas_entries)
qed

lemma spec_address_eq:
  "spec_address h =
     dropWhile isspace (join '', '' (map address_entry (filter is_ip_address (findall h ''address''))))"
proof (cases "filter is_ip_address (findall h ''address'') = []")
  case True
  then show ?thesis
    by (simp add: spec_address_def strip_def rstrip_chars_def strip_with_def)
next
  case False
  let ?es = "map address_entry (filter is_ip_address (findall h ''address''))"
  let ?J = "join '', '' ?es"
  have es: "?es \<noteq> []" using False by simp
  have acc: "concat (map (\<lambda>a. address_entry a @ '', '') (filter is_ip_address (findall h ''address''))) = ?J @ '', ''"
    using concat_entries_join [OF es, of "'', ''"] by (simp add: map_concat comp_def)
  have J: "?J \<noteq> [] \<and> last ?J = CHR '')''"
    by (rule join_last [OF es]) (auto simp add: address_entry_last)
  then have D: "dropWhile isspace ?J \<noteq> [] \<and> last (dropWhile isspace ?J) = CHR '')''"
    using dropWhile_keeps_last [of ?J isspace] by (simp add: isspace_chars)
  show ?thesis
    using J D by (simp add: spec_address_def acc strip_entries rstrip_commas_entries)
qed

lemma parse_host_fields:
  "parse_host h = Inr d \<Longrightarrow> address d = host_address h \<and> hostnames d = host_hostnames h"
  by (auto simp add: parse_host_def split: option.splits sum.splits)

text \<open>
  C7 (as amended). For every host, the address field is built only from the address
  children whose addrtype is exactly ipv4 or ipv6, each contributing its address, a
  space and its type in upper case between parentheses, joined by a comma and a space;
  leading whitespace is stripped, and so are the trailing separator and every leading
  comma: the field is the text the specification describes with its leading commas
  removed. A host with no such address has the empty string, and the field of the
  extracted record is this text.
\<close>

theorem C7_address_field:
  "host_address h = dropWhile (\<lambda>c. c = CHR '','') (spec_address h) \<and>
   spec_address h =
     dropWhile isspace
       (join '', '' (map address_entry (filter is_ip_address (findall h ''address'')))) \<and>
   (filter is_ip_address (findall h ''address'') = [] \<longrightarrow> host_address h = []) \<and>
   (parse_host h = Inr d \<longrightarrow> address d = host_address h)"
  by (simp add: host_address_eq spec_address_eq parse_host_fields)

theorem C7_address_field_witness:
  "parse_host example_host_none = Inr (projr (parse_host example_host_none)) \<and>
   address (projr (parse_host example_host_none)) = ''None (IPV4)'' \<and>
   filter is_ip_address (findall example_host_stray ''address'') = [] \<and>
   host_address example_host_stray = []"
proof -
  have 1: "parse_host example_host_none = Inr (projr (parse_host example_host_none))"
    by (simp add: parse_host_def example_host_none_def find_elem_def findall_def)
  have 2: "filter is_ip_address (findall example_host_stray ''address'') = []"
    by (simp add: example_host_stray_def findall_def example_port_bare_def)
  have 3: "spec_address example_host_none = ''None (IPV4)''"
    by (simp add: spec_address_def example_host_none_def findall_def is_ip_address_def
        elem_get_def address_entry_def fstr_def upper_ipv4 strip_def strip_with_def
        rstrip_chars_def isspace_def)
  from C7_address_field [of example_host_none "projr (parse_host example_host_none)"]
    C7_address_field [of example_host_stray] 1 2 3
  show ?thesis by simp
qed

text \<open>
  C7 as stated fails: \<open>strip(',')\<close> strips at both ends, so an address that begins with
  a comma loses it, which stripping the trailing comma alone would not do.
\<close>

theorem C7_counterexample:
  "host_address example_host_comma = ''1 (IPV4)'' \<and>
   spec_address example_host_comma = '',1 (IPV4)'' \<and>
   host_address example_host_comma \<noteq> spec_address example_host_comma"
  by (simp add: host_address_def spec_address_def example_host_comma_def findall_def
      is_ip_address_def elem_get_def address_entry_def fstr_def upper_ipv4 strip_def
      strip_with_def strip_chars_def rstrip_chars_def isspace_def)

section \<open>Missing attributes and extra ports\<close>

lemma parse_ports_total:
  "\<forall>p \<in> set ps. find_elem p ''state'' \<noteq> None \<Longrightarrow> \<exists>ds. parse_ports ps = Inr ds"
  by (induction ps) (auto simp add: parse_port_def split: option.splits)

lemma parse_host_total:
  assumes "\<forall>p \<in> set (host_port_elements h). find_elem p ''state'' \<noteq> None"
  shows "\<exists>d. parse_host h = Inr d"
proof (cases "find_elem h ''ports''")
  case None
  then show ?thesis by (simp add: parse_host_def)
next
  case (Some pe)
  with assms obtain ds where "parse_ports (findall pe ''port'') = Inr ds"
    using parse_ports_total [of "findall pe ''port''"] by (auto simp add: host_port_elements_def)
  with Some show ?thesis by (simp add: parse_host_def)
qed

text \<open>
  C10. An address element of type ipv4 or ipv6 without an addr attribute contributes
  the text None before its type to the address accumulator, and a hostname element
  without a name or without a type has None in that place of its entry, the hostnames
  text of a host being its entries joined. Nothing is raised for them: extraction of a
  host returns a record with these two texts whenever each port it reads has a state
  child.
\<close>

theorem C10_none_interpolated:
  "(findall h ''address'' = xs @ a # ys \<and> elem_get a ''addr'' = None \<and>
    elem_get a ''addrtype'' = Some ''ipv4'' \<longrightarrow>
      address_loop [] (findall h ''address'') =
        address_loop [] xs @ ''None (IPV4), '' @ address_loop [] ys) \<and>
   (findall h ''address'' = xs @ a # ys \<and> elem_get a ''addr'' = None \<and>
    elem_get a ''addrtype'' = Some ''ipv6'' \<longrightarrow>
      address_loop [] (findall h ''address'') =
        address_loop [] xs @ ''None (IPV6), '' @ address_loop [] ys) \<and>
   (elem_get hn ''name'' = None \<longrightarrow>
      hostname_entry hn = ''None ('' @ fstr (elem_get hn ''type'') @ '')'') \<and>
   (elem_get hn ''type'' = None \<longrightarrow>
      hostname_entry hn = fstr (elem_get hn ''name'') @ '' (None)'') \<and>
   (find_elem h ''hostnames'' = Some he \<longrightarrow>
      host_hostnames h = join '', '' (map hostname_entry (findall he ''hostname''))) \<and>
   ((\<forall>p \<in> set (host_port_elements h). find_elem p ''state'' \<noteq> None) \<longrightarrow>
      (\<exists>d. parse_host h = Inr d \<and> address d = host_address h \<and>
           hostnames d = host_hostnames h))"
proof -
  have "address_loop [] (us @ a # vs) = address_loop [] us @ ''None (IPV4), '' @ address_loop [] vs"
    if "elem_get a ''addr'' = None" "elem_get a ''addrtype'' = Some ''ipv4''" for us vs
    using that
    by (simp add: address_loop_eq is_ip_address_def address_entry_def fstr_def upper_ipv4)
  moreover
  have "address_loop [] (us @ a # vs) = address_loop [] us @ ''None (IPV6), '' @ address_loop [] vs"
    if "elem_get a ''addr'' = None" "elem_get a ''addrtype'' = Some ''ipv6''" for us vs
    using that
    by (simp add: address_loop_eq is_ip_address_def address_entry_def fstr_def upper_ipv6)
  moreover
  have "\<exists>d. parse_host h = Inr d \<and> address d = host_address h \<and> hostnames d = host_hostnames h"
    if "\<forall>p \<in> set (host_port_elements h). find_elem p ''state'' \<noteq> None"
    using parse_host_total [OF that] parse_host_fields by blast
  ultimately show ?thesis
    by (simp add: hostname_entry_def fstr_def host_hostnames_def)
qed

theorem C10_none_interpolated_witness:
  "address_loop [] (findall example_host_none ''address'') = ''None (IPV4), '' \<and>
   hostname_entry (Element ''hostname'' [] []) = ''None (None)'' \<and>
   (\<exists>d. parse_host example_host_none = Inr d \<and> address d = ''None (IPV4)'' \<and>
        hostnames d = ''None (None)'')"
proof -
  let ?mac = "Element ''address'' [(''addr'', ''00:11:22:33:44:55''), (''addrtype'', ''mac'')] []"
  let ?a = "Element ''address'' [(''addrtype'', ''ipv4'')] []"
  let ?he = "Element ''hostnames'' [] [Element ''hostname'' [] []]"
  let ?hn = "Element ''hostname'' [] []"
  have 1: "findall example_host_none ''address'' = [?mac] @ ?a # []"
    by (simp add: example_host_none_def findall_def)
  have 2: "elem_get ?a ''addr'' = None" "elem_get ?a ''addrtype'' = Some ''ipv4''"
    "elem_get ?hn ''name'' = None" "elem_get ?hn ''type'' = None"
    by (simp_all add: elem_get_def)
  have 3: "find_elem example_host_none ''hostnames'' = Some ?he"
    by (simp add: example_host_none_def find_elem_def findall_def)
  have 4: "\<forall>p \<in> set (host_port_elements example_host_none). find_elem p ''state'' \<noteq> None"
    by (simp add: host_port_elements_def example_host_none_def find_elem_def findall_def)
  have 5: "address_loop [] [?mac] = []"
    by (simp add: elem_get_def)
  have 6: "host_address example_host_none = ''None (IPV4)''"
    by (simp add: host_address_def example_host_none_def findall_def elem_get_def fstr_def
        upper_ipv4 strip_def strip_chars_def strip_with_def isspace_def)
  have 7: "findall ?he ''hostname'' = [?hn]"
    by (simp add: findall_def)
  from C10_none_interpolated [of example_host_none "[?mac]" ?a "[]" ?hn ?he] 1 3 4 6 7
  show ?thesis by (auto simp add: fstr_def elem_get_def)
qed

lemma host_table_rows_length:
  assumes "host_table d = Inr t"
  obtains prs where "port_rows (ports d) = Inr prs" and "length prs = length (ports d)"
    and "t_rows t = map set_font
       ([band_row ''Address'', value_row (address d), band_row ''Hostnames'',
         value_row (hostnames d), titles_row] @ prs @ map extraport_row (extraports d))"
proof -
  from host_table_rows [OF assms] obtain prs where prs: "port_rows (ports d) = Inr prs"
    and rows: "t_rows t = map set_font
       ([band_row ''Address'', value_row (address d), band_row ''Hostnames'',
         value_row (hostnames d), titles_row] @ prs @ map extraport_row (extraports d))"
    by blast
  from prs have "length prs = length (ports d)"
    using port_rows_list_all2 list_all2_lengthD by fastforce
  with prs rows that show thesis by blast
qed

lemma parse_host_extraports:
  "parse_host h = Inr d \<Longrightarrow>
   extraports d =
     (case find_elem h ''ports'' of
        None \<Rightarrow> []
      | Some pe \<Rightarrow>
          (case findall pe ''extraports'' of
             [] \<Rightarrow> []
           | xp # _ \<Rightarrow> [\<lparr>xp_state = elem_get xp ''state'', xp_count = elem_get xp ''count''\<rparr>]))"
  by (auto simp add: parse_host_def parse_extraports_def find_elem_def
      split: option.splits sum.splits list.splits)

text \<open>
  C9. For every extracted host at most one extraports summary is produced, from the
  state and count attributes of the first extraports child of the ports element; a
  host without a ports element has no ports and no summary; and in the rendered table
  the rows after the port rows are one row per summary, a single cell spanning the 6
  columns, without fill, whose text is the count, the words "ports are in state:" and
  the state, as the document library stores an assigned text: a carriage return in
  it reads back as a line feed.
\<close>

theorem C9_extraports:
  "parse_host h = Inr d \<Longrightarrow>
     length (extraports d) \<le> 1 \<and>
     extraports d =
       (case find_elem h ''ports'' of
          None \<Rightarrow> []
        | Some pe \<Rightarrow>
            (case findall pe ''extraports'' of
               [] \<Rightarrow> []
             | xp # _ \<Rightarrow> [\<lparr>xp_state = elem_get xp ''state'', xp_count = elem_get xp ''count''\<rparr>])) \<and>
     (find_elem h ''ports'' = None \<longrightarrow> ports d = [] \<and> extraports d = []) \<and>
     (\<forall>t. host_table d = Inr t \<longrightarrow>
        drop (5 + length (ports d)) (t_rows t) =
          map (\<lambda>x. [\<lparr>c_span = 6, c_shd = [],
                      c_paragraphs = [[\<lparr>r_text = stored_text (fstr (xp_count x)
                                           @ '' ports are in state: '' @ fstr (xp_state x)),
                                         r_color = None, r_size = Some 9,
                                         r_name = Some ''Calibri''\<rparr>]]\<rparr>])
            (extraports d))"
proof -
  assume ph: "parse_host h = Inr d"
  note xp = parse_host_extraports [OF ph]
  have len: "length (extraports d) \<le> 1"
    by (subst xp) (simp split: option.splits list.splits)
  have none: "find_elem h ''ports'' = None \<longrightarrow> ports d = [] \<and> extraports d = []"
    using ph by (auto simp add: parse_host_def)
  have rows: "drop (5 + length (ports d)) (t_rows t) =
          map (\<lambda>x. [\<lparr>c_span = 6, c_shd = [],
                      c_paragraphs = [[\<lparr>r_text = stored_text (fstr (xp_count x)
                                           @ '' ports are in state: '' @ fstr (xp_state x)),
                                         r_color = None, r_size = Some 9,
                                         r_name = Some ''Calibri''\<rparr>]]\<rparr>])
            (extraports d)" if "host_table d = Inr t" for t
  proof -
    from that obtain prs where l: "length prs = length (ports d)"
      and r: "t_rows t = map set_font
       ([band_row ''Address'', value_row (address d), band_row ''Hostnames'',
         value_row (hostnames d), titles_row] @ prs @ map extraport_row (extraports d))"
      by (rule host_table_rows_length)
    define front where "front = map set_font
       ([band_row ''Address'', value_row (address d), band_row ''Hostnames'',
         value_row (hostnames d), titles_row] @ prs)"
    have lf: "length front = 5 + length (ports d)"
      by (simp add: front_def l)
    have "t_rows t = front @ map set_font (map extraport_row (extraports d))"
      by (simp add: r front_def)
    with lf have "drop (5 + length (ports d)) (t_rows t) =
        map set_font (map extraport_row (extraports d))"
      by (metis append_eq_conv_conj)
    then show ?thesis
      by (simp add: extraport_row_def value_row_eq set_font_def)
  qed
  from len xp none rows show ?thesis by blast
qed

theorem C9_extraports_witness:
  "parse_host example_host_none = Inr (projr (parse_host example_host_none)) \<and>
   extraports (projr (parse_host example_host_none)) =
     [\<lparr>xp_state = Some ''filtered'', xp_count = Some ''997''\<rparr>] \<and>
   ports (projr (parse_host example_host_none)) = [] \<and>
   host_table (projr (parse_host example_host_none)) =
     Inr (projr (host_table (projr (parse_host example_host_none)))) \<and>
   map (map cell_text) (drop 5 (t_rows (projr (host_table (projr (parse_host example_host_none)))))) =
     [[''997 ports are in state: filtered'']]"
proof -
  have 1: "parse_host example_host_none = Inr (projr (parse_host example_host_none))"
    by (simp add: parse_host_def example_host_none_def find_elem_def findall_def)
  have 2: "ports (projr (parse_host example_host_none)) = []"
    by (simp add: parse_host_def example_host_none_def find_elem_def findall_def)
  have 3: "host_table (projr (parse_host example_host_none)) =
     Inr (projr (host_table (projr (parse_host example_host_none))))"
    by (simp add: host_table_def 2)
  have 4: "find_elem example_host_none ''ports'' = Some (Element ''ports'' []
          [Element ''extraports'' [(''state'', ''filtered''), (''count'', ''997'')] [],
           Element ''extraports'' [(''state'', ''closed''), (''count'', ''2'')] []])"
    by (simp add: example_host_none_def find_elem_def findall_def)
  from C9_extraports [OF 1] 1 2 3 4 show ?thesis
    by (simp add: findall_def elem_get_def fstr_def cell_text_def stored_text_def)
qed

section \<open>Port rows\<close>

lemma parse_host_ports:
  "parse_host h = Inr d \<Longrightarrow>
   list_all2 (\<lambda>p pd. parse_port p = Inr pd) (host_port_elements h) (ports d)"
  by (auto simp add: parse_host_def host_port_elements_def parse_ports_list_all2
      split: option.splits sum.splits)

lemma port_row_of_element:
  assumes "parse_port p = Inr pd" and "port_row pd = Inr r"
  shows "\<exists>st. find_elem p ''state'' = Some st \<and>
     map (Some \<circ> cell_text) r =
       map (map_option stored_text)
       [elem_get p ''portid'', elem_get p ''protocol'', elem_get st ''state'',
        (case find_elem p ''service'' of None \<Rightarrow> Some [] | Some sv \<Rightarrow> elem_get sv ''name''),
        Some (case find_elem p ''service'' of
                None \<Rightarrow> []
              | Some sv \<Rightarrow> (case elem_get sv ''product'' of None \<Rightarrow> [] | Some s \<Rightarrow> s)),
        Some (case find_elem p ''service'' of
                None \<Rightarrow> []
              | Some sv \<Rightarrow> (case elem_get sv ''version'' of None \<Rightarrow> [] | Some s \<Rightarrow> s))] \<and>
     map c_shd r =
       replicate 6 [if elem_get st ''state'' = Some ''open'' then ''EAF1DD'' else ''F2DBDB'']"
proof -
  from assms(1) obtain st where st: "find_elem p ''state'' = Some st"
    and pd: "pd = \<lparr>portid = elem_get p ''portid'', protocol = elem_get p ''protocol'',
       state = elem_get st ''state'',
       service = (case find_elem p ''service'' of Some sv \<Rightarrow> elem_get sv ''name'' | None \<Rightarrow> Some []),
       product = (case find_elem p ''service'' of Some sv \<Rightarrow> elem_get sv ''product'' | None \<Rightarrow> Some []),
       version = (case find_elem p ''service'' of Some sv \<Rightarrow> elem_get sv ''version'' | None \<Rightarrow> Some [])\<rparr>"
    by (auto simp add: parse_port_def split: option.splits)
  from assms(2) show ?thesis
    unfolding pd port_row_eq
    by (auto simp add: st cell_text_one numeral_eq_Suc split: option.splits)
qed

text \<open>
  A host is extracted and rendered whenever each port the extractor reads carries its
  portid and protocol, a state child with its state, and a name on its service element
  if it has one.
\<close>

lemma host_renders:
  assumes "\<forall>p \<in> set (host_port_elements h).
     elem_get p ''portid'' \<noteq> None \<and> elem_get p ''protocol'' \<noteq> None \<and>
     (\<exists>st. find_elem p ''state'' = Some st \<and> elem_get st ''state'' \<noteq> None) \<and>
     (\<forall>sv. find_elem p ''service'' = Some sv \<longrightarrow> elem_get sv ''name'' \<noteq> None)"
  shows "\<exists>d t. parse_host h = Inr d \<and> host_table d = Inr t"
proof -
  from assms have "\<forall>p \<in> set (host_port_elements h). find_elem p ''state'' \<noteq> None"
    by auto
  then obtain d where d: "parse_host h = Inr d"
    using parse_host_total by blast
  have "portid pd \<noteq> None \<and> protocol pd \<noteq> None \<and> state pd \<noteq> None \<and> service pd \<noteq> None"
    if "pd \<in> set (ports d)" for pd
  proof -
    from that obtain i where i: "i < length (ports d)" and pd: "ports d ! i = pd"
      by (auto simp add: in_set_conv_nth)
    note el = parse_host_ports [OF d]
    define p where "p = host_port_elements h ! i"
    have p: "p \<in> set (host_port_elements h)"
      using el i by (simp add: p_def list_all2_lengthD)
    have pp: "parse_port p = Inr pd"
      using el i pd by (auto simp add: p_def list_all2_conv_all_nth)
    from assms p pp show ?thesis
      by (auto simp add: parse_port_def split: option.splits)
  qed
  then have "list_all (\<lambda>p. portid p \<noteq> None \<and> protocol p \<noteq> None \<and> state p \<noteq> None \<and>
      service p \<noteq> None) (ports d)"
    by (simp add: list_all_iff)
  then obtain rs where "port_rows (ports d) = Inr rs"
    using port_rows_total by blast
  then have "\<exists>t. host_table d = Inr t"
    by (simp add: host_table_def)
  with d show ?thesis by blast
qed

text \<open>
  C4. For every host that is extracted and rendered, the table has, after its five
  heading rows and before the extraports rows, exactly one row per port element of the
  host's ports element, in document order. The six cells of the row hold the portid,
  the protocol, the state of the state child, the name of the service, its product and
  its version (the empty string for a missing service element, product or version),
  each as the document library stores an assigned text, a carriage return in it
  reading back as a line feed; and each cell is filled EAF1DD when the state is exactly
  open and F2DBDB for every other state.
\<close>

theorem C4_port_rows:
  assumes "parse_host h = Inr d" and "host_table d = Inr t"
  shows "length (t_rows t) = 5 + length (host_port_elements h) + length (extraports d) \<and>
    (\<forall>i < length (host_port_elements h).
       \<exists>st. find_elem (host_port_elements h ! i) ''state'' = Some st \<and>
         map (Some \<circ> cell_text) (t_rows t ! (5 + i)) =
           map (map_option stored_text)
           [elem_get (host_port_elements h ! i) ''portid'',
            elem_get (host_port_elements h ! i) ''protocol'',
            elem_get st ''state'',
            (case find_elem (host_port_elements h ! i) ''service'' of
               None \<Rightarrow> Some []
             | Some sv \<Rightarrow> elem_get sv ''name''),
            Some (case find_elem (host_port_elements h ! i) ''service'' of
                    None \<Rightarrow> []
                  | Some sv \<Rightarrow> (case elem_get sv ''product'' of None \<Rightarrow> [] | Some s \<Rightarrow> s)),
            Some (case find_elem (host_port_elements h ! i) ''service'' of
                    None \<Rightarrow> []
                  | Some sv \<Rightarrow> (case elem_get sv ''version'' of None \<Rightarrow> [] | Some s \<Rightarrow> s))] \<and>
         map c_shd (t_rows t ! (5 + i)) =
           replicate 6 [if elem_get st ''state'' = Some ''open'' then ''EAF1DD'' else ''F2DBDB''])"
proof -
  from assms(2) obtain prs where prs: "port_rows (ports d) = Inr prs"
    and rows: "t_rows t = map set_font
       ([band_row ''Address'', value_row (address d), band_row ''Hostnames'',
         value_row (hostnames d), titles_row] @ prs @ map extraport_row (extraports d))"
    by (rule host_table_rows_length)
  note el = parse_host_ports [OF assms(1)]
  note rw = port_rows_list_all2 [OF prs]
  have len: "length (host_port_elements h) = length (ports d)" "length (ports d) = length prs"
    using el rw by (simp_all add: list_all2_lengthD)
  have total: "length (t_rows t) = 5 + length (host_port_elements h) + length (extraports d)"
    by (simp add: rows len)
  have each: "\<exists>st. find_elem (host_port_elements h ! i) ''state'' = Some st \<and>
         map (Some \<circ> cell_text) (t_rows t ! (5 + i)) =
           map (map_option stored_text)
           [elem_get (host_port_elements h ! i) ''portid'',
            elem_get (host_port_elements h ! i) ''protocol'',
            elem_get st ''state'',
            (case find_elem (host_port_elements h ! i) ''service'' of
               None \<Rightarrow> Some []
             | Some sv \<Rightarrow> elem_get sv ''name''),
            Some (case find_elem (host_port_elements h ! i) ''service'' of
                    None \<Rightarrow> []
                  | Some sv \<Rightarrow> (case elem_get sv ''product'' of None \<Rightarrow> [] | Some s \<Rightarrow> s)),
            Some (case find_elem (host_port_elements h ! i) ''service'' of
                    None \<Rightarrow> []
                  | Some sv \<Rightarrow> (case elem_get sv ''version'' of None \<Rightarrow> [] | Some s \<Rightarrow> s))] \<and>
         map c_shd (t_rows t ! (5 + i)) =
           replicate 6 [if elem_get st ''state'' = Some ''open'' then ''EAF1DD'' else ''F2DBDB'']"
    if i: "i < length (host_port_elements h)" for i
  proof -
    have 1: "parse_port (host_port_elements h ! i) = Inr (ports d ! i)"
      using el i by (simp add: list_all2_conv_all_nth)
    have 2: "port_row (ports d ! i) = Inr (prs ! i)"
      using rw i len by (simp add: list_all2_conv_all_nth)
    have 3: "t_rows t ! (5 + i) = set_font (prs ! i)"
      using i len by (simp add: rows nth_append)
    have 4: "map (Some \<circ> cell_text) (set_font r) = map (Some \<circ> cell_text) r" for r
      using cell_text_set_font [of r] by (metis map_map)
    from port_row_of_element [OF 1 2] show ?thesis
      by (simp only: 3 4 c_shd_set_font)
  qed
  from total each show ?thesis by blast
qed

theorem C4_port_rows_witness:
  "parse_host example_host_two = Inr (projr (parse_host example_host_two)) \<and>
   host_table (projr (parse_host example_host_two)) =
     Inr (projr (host_table (projr (parse_host example_host_two)))) \<and>
   length (t_rows (projr (host_table (projr (parse_host example_host_two))))) = 7 \<and>
   map cell_text (t_rows (projr (host_table (projr (parse_host example_host_two)))) ! 5) =
     [''22'', ''tcp'', ''filtered'', ''ssh'', [], []] \<and>
   map c_shd (t_rows (projr (host_table (projr (parse_host example_host_two)))) ! 5) =
     replicate 6 [''F2DBDB''] \<and>
   map cell_text (t_rows (projr (host_table (projr (parse_host example_host_two)))) ! 6) =
     [''80'', ''tcp'', ''open'', [], [], []] \<and>
   map c_shd (t_rows (projr (host_table (projr (parse_host example_host_two)))) ! 6) =
     replicate 6 [''EAF1DD'']"
proof -
  let ?d = "projr (parse_host example_host_two)"
  let ?t = "projr (host_table ?d)"
  have d: "parse_host example_host_two =
      Inr \<lparr>address = [], hostnames = [],
           ports = [\<lparr>portid = Some ''22'', protocol = Some ''tcp'', state = Some ''filtered'',
                      service = Some ''ssh'', product = None, version = None\<rparr>,
                    \<lparr>portid = Some ''80'', protocol = Some ''tcp'', state = Some ''open'',
                      service = Some [], product = Some [], version = Some []\<rparr>],
           extraports = []\<rparr>"
    by (simp add: parse_host_def example_host_two_def example_port_ssh_def example_port_def
        find_elem_def findall_def parse_port_def elem_get_def parse_extraports_def
        host_address_def host_hostnames_def strip_def strip_chars_def strip_with_def)
  have 1: "parse_host example_host_two = Inr ?d"
    by (simp add: d)
  have 2: "host_table ?d = Inr ?t"
    by (simp add: d host_table_def port_row_eq)
  have 3: "host_port_elements example_host_two = [example_port_ssh, example_port]"
    by (simp add: host_port_elements_def example_host_two_def find_elem_def findall_def
        example_port_ssh_def example_port_def)
  have 4: "extraports ?d = []"
    by (simp add: d)
  have 5: "find_elem example_port_ssh ''state'' = Some (Element ''state'' [(''state'', ''filtered'')] [])"
    "find_elem example_port_ssh ''service'' = Some (Element ''service'' [(''name'', ''ssh'')] [])"
    "find_elem example_port ''state'' = Some (Element ''state'' [(''state'', ''open'')] [])"
    "find_elem example_port ''service'' = None"
    by (simp_all add: find_elem_def findall_def example_port_ssh_def example_port_def)
  have 6: "elem_get example_port_ssh ''portid'' = Some ''22''"
    "elem_get example_port_ssh ''protocol'' = Some ''tcp''"
    "elem_get example_port ''portid'' = Some ''80''"
    "elem_get example_port ''protocol'' = Some ''tcp''"
    by (simp_all add: elem_get_def example_port_ssh_def example_port_def)
  have 7: "elem_get (Element ''state'' [(''state'', ''filtered'')] []) ''state'' = Some ''filtered''"
    "elem_get (Element ''state'' [(''state'', ''open'')] []) ''state'' = Some ''open''"
    "elem_get (Element ''service'' [(''name'', ''ssh'')] []) ''name'' = Some ''ssh''"
    "elem_get (Element ''service'' [(''name'', ''ssh'')] []) ''product'' = None"
    "elem_get (Element ''service'' [(''name'', ''ssh'')] []) ''version'' = None"
    by (simp_all add: elem_get_def)
  from C4_port_rows [OF 1 2]
  have len: "length (t_rows ?t) = 7"
    and r: "\<forall>i<2. \<exists>st. find_elem ([example_port_ssh, example_port] ! i) ''state'' = Some st \<and>
         map (Some \<circ> cell_text) (t_rows ?t ! (5 + i)) =
           map (map_option stored_text)
           [elem_get ([example_port_ssh, example_port] ! i) ''portid'',
            elem_get ([example_port_ssh, example_port] ! i) ''protocol'',
            elem_get st ''state'',
            (case find_elem ([example_port_ssh, example_port] ! i) ''service'' of
               None \<Rightarrow> Some []
             | Some sv \<Rightarrow> elem_get sv ''name''),
            Some (case find_elem ([example_port_ssh, example_port] ! i) ''service'' of
                    None \<Rightarrow> []
                  | Some sv \<Rightarrow> (case elem_get sv ''product'' of None \<Rightarrow> [] | Some s \<Rightarrow> s)),
            Some (case find_elem ([example_port_ssh, example_port] ! i) ''service'' of
                    None \<Rightarrow> []
                  | Some sv \<Rightarrow> (case elem_get sv ''version'' of None \<Rightarrow> [] | Some s \<Rightarrow> s))] \<and>
         map c_shd (t_rows ?t ! (5 + i)) =
           replicate 6 [if elem_get st ''state'' = Some ''open'' then ''EAF1DD'' else ''F2DBDB'']"
    by (simp_all add: 3 4)
  from r [rule_format, of 0] have r0:
    "map (Some \<circ> cell_text) (t_rows ?t ! 5) = map Some [''22'', ''tcp'', ''filtered'', ''ssh'', [], []]"
    "map c_shd (t_rows ?t ! 5) = replicate 6 [''F2DBDB'']"
    by (simp_all add: 5 6 7 stored_text_def)
  from r [rule_format, of 1] have r1:
    "map (Some \<circ> cell_text) (t_rows ?t ! 6) = map Some [''80'', ''tcp'', ''open'', [], [], []]"
    "map c_shd (t_rows ?t ! 6) = replicate 6 [''EAF1DD'']"
    by (simp_all add: 5 6 7 stored_text_def)
  have inj: "map (Some \<circ> f) xs = map Some ys \<Longrightarrow> map f xs = ys" for f :: "cell \<Rightarrow> string" and xs ys
    by (metis list.inj_map_strong map_map option.inject)
  from 1 2 len r0 r1 show ?thesis
    by (simp only: inj [OF r0(1)] inj [OF r1(1)])
qed

text \<open>
  A carriage return in a portid or in a count reaches the table as a line break: read
  back, the cells of the example host hold a line feed in its place.
\<close>

lemma carriage_return_stored:
  "map (map cell_text) (drop 5 (t_rows (projr (host_table (projr (parse_host example_host_cr)))))) =
     [[[CHR ''8'', CHR 0x0A, CHR ''0''], ''tcp'', ''closed'', [], [], []],
      [[CHR ''9'', CHR 0x0A, CHR ''7''] @ '' ports are in state: filtered'']]"
  by (simp add: parse_host_def example_host_cr_def example_port_cr_def find_elem_def findall_def
      parse_port_def elem_get_def parse_extraports_def host_table_def port_row_eq
      extraport_row_def value_row_eq set_font_def cell_text_def stored_text_def fstr_def)

end
